theory Spec2Isabelle
  imports Complex_Main "HOL-Library.AList" "HOL-Library.Log_Nat"
begin

section \<open>The image cache of react-native-image-cache (src/image-cache.js)\<close>

text \<open>
  The module caches remote images on the device: \<open>getImageInfo\<close> derives a file
  name from a URI, \<open>fetchImage\<close> and \<open>preloadImages\<close> download what is not yet
  on disk, \<open>updateCacheMapping\<close> keeps a table of the cached URIs in AsyncStorage and
  \<open>clearExpiredImage\<close> sweeps old artifacts.

  The embedding is shallow. Every function of the module is a HOL function of the
  same name. The collaborators the module imports (valid-url, object-hash,
  rn-fetch-blob, AsyncStorage, the clock) are not part of the repository: their
  answers are the fields of an environment record. The file system and the stored
  item are an explicit state that every operation takes and returns, together with a
  trace of the I/O calls the operation issued. A promise is the value it settles to,
  or \<open>Pending\<close> when no path of the code settles it. The optional callback of
  \<open>fetchImage\<close> and \<open>preloadImages\<close> (by default the empty function) is taken to
  return normally; its calls are recorded in the trace.
\<close>

subsection \<open>JavaScript strings\<close>

text \<open>
  \<open>String.prototype.indexOf\<close> and \<open>lastIndexOf\<close> with a one-character needle:
  the position of the first (last) occurrence, \<open>-1\<close> when there is none.
\<close>

definition indexOf :: "string \<Rightarrow> char \<Rightarrow> int" where
  "indexOf s c =
     (if c \<in> set s then int (length (takeWhile (\<lambda>x. x \<noteq> c) s)) else - 1)"

definition lastIndexOf :: "string \<Rightarrow> char \<Rightarrow> int" where
  "lastIndexOf s c =
     (if c \<in> set s
      then int (length s) - 1 - int (length (takeWhile (\<lambda>x. x \<noteq> c) (rev s)))
      else - 1)"

text \<open>
  \<open>String.prototype.substring(start, end)\<close>: both indices are clamped to
  \<open>0 .. length\<close> and swapped when \<open>start > end\<close>; with one argument the end is
  the length of the string.
\<close>

definition clampIndex :: "string \<Rightarrow> int \<Rightarrow> nat" where
  "clampIndex s i = min (nat (max 0 i)) (length s)"

definition substring :: "string \<Rightarrow> int \<Rightarrow> int \<Rightarrow> string" where
  "substring s a b =
     (let lo = min (clampIndex s a) (clampIndex s b);
          hi = max (clampIndex s a) (clampIndex s b)
      in take (hi - lo) (drop lo s))"

definition substringFrom :: "string \<Rightarrow> int \<Rightarrow> string" where
  "substringFrom s a = substring s a (int (length s))"

subsection \<open>Errors, promises and the collaborators\<close>

datatype error =
    WrongFileFormat string      \<comment> \<open>\<open>new Error(`wrong file format: ${uri}`)\<close>\<close>
  | CannotPreloadImage string   \<comment> \<open>\<open>new Error(`cannot preload image: ${uri}`)\<close>\<close>
  | JSONSyntaxError             \<comment> \<open>thrown by \<open>JSON.parse\<close>\<close>
  | External string             \<comment> \<open>an error raised by rn-fetch-blob or AsyncStorage\<close>

datatype 'a promise = Resolved 'a | Rejected error | Pending

text \<open>
  The answer of \<open>RNFetchBlob.config({path}).fetch('GET', uri)\<close>: a response with a
  status code, whose body has been written to the configured path, or a transport
  error, which may leave a partly written file at that path.
\<close>

datatype response = Status int | Failed string bool

record env =
  validUrl_isUri :: "string \<Rightarrow> bool"     \<comment> \<open>whether \<open>validUrl.isUri(uri)\<close> is truthy\<close>
  object_hash :: "string \<Rightarrow> string"       \<comment> \<open>\<open>hash(uri)\<close> of object-hash\<close>
  dirs_CacheDir :: string                 \<comment> \<open>\<open>RNFetchBlob.fs.dirs.CacheDir\<close>\<close>
  Date_now :: int                         \<comment> \<open>\<open>Date.now()\<close>, epoch milliseconds\<close>
  fetch_GET :: "string \<Rightarrow> response"
  fs_exists_throws :: "string \<Rightarrow> bool"   \<comment> \<open>\<open>RNFetchBlob.fs.exists(path)\<close> rejects\<close>
  fs_unlink_rejects :: "string \<Rightarrow> bool"  \<comment> \<open>\<open>RNFetchBlob.fs.unlink(path)\<close> rejects\<close>
  getItem_rejects :: "string option"      \<comment> \<open>\<open>AsyncStorage.getItem\<close> rejects with this\<close>
  setItem_rejects :: "string option"      \<comment> \<open>\<open>AsyncStorage.setItem\<close> rejects with this\<close>

subsection \<open>Key derivation\<close>

definition validImageExtensions :: "string list" where
  "validImageExtensions = [''.jpg'', ''.png'', ''.jpeg'', ''.gif'']"

definition getImageInfo :: "env \<Rightarrow> string \<Rightarrow> string option" where
  "getImageInfo e uri =
     (if validUrl_isUri e uri then
        (let path = substringFrom uri (lastIndexOf uri CHR ''/'');
             pathName = (if indexOf path CHR ''?'' = - 1 then path
                         else substring path 0 (indexOf path CHR ''?''))
         in if lastIndexOf pathName CHR ''.'' \<ge> 0 then
              (let fileExtension = substringFrom pathName (lastIndexOf pathName CHR ''.'')
               in if fileExtension \<in> set validImageExtensions
                  then Some (object_hash e uri @ ''.'' @ substringFrom fileExtension 1)
                  else None)
            else None)
      else None)"

text \<open>
  Key derivation in the words of the specification (section 4.1): take the path
  segment after the last \<open>/\<close>, strip everything from the first \<open>?\<close> on, reject
  when no \<open>.\<close> is left, take the extension from the last \<open>.\<close> to the end and
  accept it when it is one of the four recognized extensions; the key is the hash of
  the whole URI, a dot and the extension without its dot.
\<close>

definition lastSegment :: "string \<Rightarrow> string" where
  "lastSegment uri = rev (takeWhile (\<lambda>x. x \<noteq> CHR ''/'') (rev uri))"

definition stripQuery :: "string \<Rightarrow> string" where
  "stripQuery p = takeWhile (\<lambda>x. x \<noteq> CHR ''?'') p"

definition extensionOf :: "string \<Rightarrow> string" where
  "extensionOf p = CHR ''.'' # rev (takeWhile (\<lambda>x. x \<noteq> CHR ''.'') (rev p))"

definition deriveKey_spec :: "env \<Rightarrow> string \<Rightarrow> string option" where
  "deriveKey_spec e uri =
     (if validUrl_isUri e uri
         \<and> CHR ''.'' \<in> set (stripQuery (lastSegment uri))
         \<and> extensionOf (stripQuery (lastSegment uri)) \<in> {''.jpg'', ''.png'', ''.jpeg'', ''.gif''}
      then Some (object_hash e uri @ ''.'' @ tl (extensionOf (stripQuery (lastSegment uri))))
      else None)"

subsection \<open>The mapping table, the state and the trace\<close>

text \<open>
  An entry of the table is the object \<open>{fileInfo, created}\<close>. A property that is
  \<open>undefined\<close> is dropped by \<open>JSON.stringify\<close> and reads back as \<open>undefined\<close>, so
  \<open>fileInfo\<close> is optional. The table is a JSON object: an association list in
  insertion order. The item stored under \<open>'cache_image'\<close> is absent, a text that
  \<open>JSON.parse\<close> refuses, or a table: the module is the only writer of the key and
  writes tables only.
\<close>

record entry =
  fileInfo :: "string option"
  created :: int

type_synonym cacheMapping = "(string \<times> entry) list"

datatype stored = Unparsable | Table cacheMapping

text \<open>
  The objects the promises resolve with: \<open>{uri, imagePath}\<close> or \<open>{uri, fileInfo}\<close>;
  a property the object does not have is \<open>None\<close>.
\<close>

record uriMapObject =
  obj_uri :: string
  obj_imagePath :: "string option"
  obj_fileInfo :: "string option"

record info =
  tried :: nat
  downloaded :: nat

datatype event =
    FsExists string                \<comment> \<open>\<open>RNFetchBlob.fs.exists(path)\<close>\<close>
  | NetFetch string string         \<comment> \<open>\<open>RNFetchBlob.config({path}).fetch('GET', uri)\<close>: uri, path\<close>
  | ResFlush string                \<comment> \<open>\<open>res.flush()\<close> of a response stored at the path\<close>
  | FsUnlink string                \<comment> \<open>\<open>RNFetchBlob.fs.unlink(path)\<close>\<close>
  | GetItem                        \<comment> \<open>\<open>AsyncStorage.getItem(CACHE_STORAGE)\<close>\<close>
  | SetItem cacheMapping           \<comment> \<open>\<open>AsyncStorage.setItem(CACHE_STORAGE, JSON.stringify(..))\<close>\<close>
  | Callback string string         \<comment> \<open>\<open>callback({uri, imagePath})\<close>\<close>
  | CallbackWrapped string string  \<comment> \<open>\<open>callback({uriMapObject: {uri, imagePath}})\<close>\<close>
  | ConsoleLog error               \<comment> \<open>\<open>console.log(e)\<close>\<close>
  | ConsoleLogCannotUnlink         \<comment> \<open>\<open>console.log('cannot unlink')\<close>\<close>
  | ConsoleLogCannotParse          \<comment> \<open>\<open>console.log('Cannot parse cacheMapping, ...')\<close>\<close>

record state =
  files :: "string set"            \<comment> \<open>the paths at which a file exists\<close>
  storage :: "stored option"       \<comment> \<open>the item under \<open>'cache_image'\<close>\<close>
  trace :: "event list"            \<comment> \<open>the calls issued so far, oldest first\<close>

definition emit :: "event \<Rightarrow> state \<Rightarrow> state" where
  "emit ev st = st\<lparr>trace := trace st @ [ev]\<rparr>"

subsection \<open>The collaborators' operations\<close>

text \<open>
  \<open>unlink\<close> removes the file unless the environment makes it reject; the result says
  whether its promise was fulfilled. \<open>res.flush()\<close> removes the file the response
  was stored in; the module never looks at its result.
\<close>

definition fs_unlink :: "env \<Rightarrow> string \<Rightarrow> state \<Rightarrow> bool \<times> state" where
  "fs_unlink e p st =
     (if fs_unlink_rejects e p then (False, emit (FsUnlink p) st)
      else (True, emit (FsUnlink p) (st\<lparr>files := files st - {p}\<rparr>)))"

definition res_flush :: "env \<Rightarrow> string \<Rightarrow> state \<Rightarrow> state" where
  "res_flush e p st =
     (if fs_unlink_rejects e p then emit (ResFlush p) st
      else emit (ResFlush p) (st\<lparr>files := files st - {p}\<rparr>))"

definition getItem :: "env \<Rightarrow> state \<Rightarrow> (error + stored option) \<times> state" where
  "getItem e st =
     (case getItem_rejects e of
        Some msg \<Rightarrow> (Inl (External msg), emit GetItem st)
      | None \<Rightarrow> (Inr (storage st), emit GetItem st))"

definition setItem :: "env \<Rightarrow> cacheMapping \<Rightarrow> state \<Rightarrow> error option \<times> state" where
  "setItem e m st =
     (case setItem_rejects e of
        Some msg \<Rightarrow> (Some (External msg), emit (SetItem m) st)
      | None \<Rightarrow> (None, emit (SetItem m) (st\<lparr>storage := Some (Table m)\<rparr>)))"

subsection \<open>Paths and the existence probe\<close>

text \<open>
  \<open>dirs.CacheDir + '/' + fileInfo\<close>; string concatenation turns \<open>undefined\<close> into
  the text \<open>undefined\<close>.
\<close>

definition generateAbsolutePath :: "env \<Rightarrow> string option \<Rightarrow> string" where
  "generateAbsolutePath e fi =
     dirs_CacheDir e @ ''/'' @ (case fi of Some f \<Rightarrow> f | None \<Rightarrow> ''undefined'')"

definition getImagePath :: "env \<Rightarrow> string \<Rightarrow> state \<Rightarrow> string option \<times> state" where
  "getImagePath e fi st =
     (let imagePath = generateAbsolutePath e (Some fi)
      in if fs_exists_throws e imagePath then (None, emit (FsExists imagePath) st)
         else if imagePath \<in> files st then (Some imagePath, emit (FsExists imagePath) st)
         else (None, emit (FsExists imagePath) st))"

subsection \<open>The mapping store\<close>

text \<open>
  A stored text that does not parse is logged and read as the empty table. In
  \<open>updateCacheMapping\<close> the test \<open>cacheMapping[uri]\<close> is truthy exactly when the
  table has an entry for the URI, since every entry is an object.
\<close>

definition getCurrentCacheMappingFromAsyncStorage ::
    "env \<Rightarrow> state \<Rightarrow> (error + cacheMapping) \<times> state" where
  "getCurrentCacheMappingFromAsyncStorage e st =
     (case getItem e st of
        (Inl x, st1) \<Rightarrow> (Inl x, st1)
      | (Inr None, st1) \<Rightarrow> (Inr [], st1)
      | (Inr (Some Unparsable), st1) \<Rightarrow> (Inr [], emit ConsoleLogCannotParse st1)
      | (Inr (Some (Table m)), st1) \<Rightarrow> (Inr m, st1))"

definition updateCacheMapping ::
    "env \<Rightarrow> string \<Rightarrow> string \<Rightarrow> state \<Rightarrow> cacheMapping promise \<times> state" where
  "updateCacheMapping e uri fi st =
     (case getCurrentCacheMappingFromAsyncStorage e st of
        (Inl x, st1) \<Rightarrow> (Rejected x, st1)
      | (Inr m, st1) \<Rightarrow>
          (if map_of m uri \<noteq> None then (Resolved m, st1)
           else (let m' = AList.update uri \<lparr>fileInfo = Some fi, created = Date_now e\<rparr> m
                 in case setItem e m' st1 of
                      (Some x, st2) \<Rightarrow> (Rejected x, st2)
                    | (None, st2) \<Rightarrow> (Resolved m', st2))))"

subsection \<open>Fetching one image\<close>

text \<open>
  The \<open>catch\<close> block of \<open>fetchImage\<close> and of \<open>preloadImage\<close> (the two are the same
  text): when a key was derived, unlink the destination path and log when that
  fails; log the error. The caller then rejects with the error.
\<close>

definition catchBlock :: "env \<Rightarrow> string option \<Rightarrow> error \<Rightarrow> state \<Rightarrow> state" where
  "catchBlock e fi x st =
     (case fi of
        None \<Rightarrow> emit (ConsoleLog x) st
      | Some f \<Rightarrow>
          (case fs_unlink e (generateAbsolutePath e (Some f)) st of
             (True, st1) \<Rightarrow> emit (ConsoleLog x) st1
           | (False, st1) \<Rightarrow> emit ConsoleLogCannotUnlink (emit (ConsoleLog x) st1)))"

text \<open>
  The network fetch writes the body of any response it gets to the destination path;
  a transport error leaves a file there when the environment says so.
\<close>

definition http_fetch :: "env \<Rightarrow> string \<Rightarrow> string \<Rightarrow> state \<Rightarrow> response \<times> state" where
  "http_fetch e uri dest st =
     (case fetch_GET e uri of
        Status code \<Rightarrow> (Status code, emit (NetFetch uri dest) (st\<lparr>files := insert dest (files st)\<rparr>))
      | Failed msg partial \<Rightarrow>
          (Failed msg partial,
           emit (NetFetch uri dest)
             (if partial then st\<lparr>files := insert dest (files st)\<rparr> else st)))"

text \<open>
  \<open>throwErrorOnInCompletedImageFetch(uri, res)\<close> flushes the response, whose file
  is at the destination path, and throws the error that carries the URI.
\<close>

definition throwErrorOnInCompletedImageFetch ::
    "env \<Rightarrow> string \<Rightarrow> string \<Rightarrow> state \<Rightarrow> error \<times> state" where
  "throwErrorOnInCompletedImageFetch e uri p st = (CannotPreloadImage uri, res_flush e p st)"

definition fetchImage :: "env \<Rightarrow> string \<Rightarrow> state \<Rightarrow> uriMapObject promise \<times> state" where
  "fetchImage e uri st =
     (case getImageInfo e uri of
        None \<Rightarrow> (Rejected (WrongFileFormat uri), catchBlock e None (WrongFileFormat uri) st)
      | Some fi \<Rightarrow>
          (case getImagePath e fi st of
             (Some imagePath, st1) \<Rightarrow>
               (Resolved \<lparr>obj_uri = uri, obj_imagePath = Some imagePath, obj_fileInfo = None\<rparr>,
                emit (Callback uri imagePath) st1)
           | (None, st1) \<Rightarrow>
               (case http_fetch e uri (generateAbsolutePath e (Some fi)) st1 of
                  (Failed msg partial, st2) \<Rightarrow>
                    (Rejected (External msg), catchBlock e (Some fi) (External msg) st2)
                | (Status code, st2) \<Rightarrow>
                    (if code = 200 then
                       (case updateCacheMapping e uri fi
                               (emit (Callback uri (generateAbsolutePath e (Some fi))) st2) of
                          (Rejected x, st3) \<Rightarrow>
                            (Resolved \<lparr>obj_uri = uri,
                                       obj_imagePath = Some (generateAbsolutePath e (Some fi)),
                                       obj_fileInfo = None\<rparr>,
                             emit (ConsoleLog x) st3)
                        | (_, st3) \<Rightarrow>
                            (Resolved \<lparr>obj_uri = uri,
                                       obj_imagePath = Some (generateAbsolutePath e (Some fi)),
                                       obj_fileInfo = None\<rparr>,
                             st3))
                     else
                       (case throwErrorOnInCompletedImageFetch e uri
                               (generateAbsolutePath e (Some fi)) st2 of
                          (x, st3) \<Rightarrow> (Rejected x, catchBlock e (Some fi) x st3))))))"

subsection \<open>Preloading a batch\<close>

text \<open>
  \<open>preloadImage\<close> runs synchronously up to its first \<open>await\<close>: without a key its
  executor throws, logs and rejects at once; with a key it issues the existence probe
  and suspends. \<open>preloadImage_start\<close> is that first part; it returns the operation
  as it is suspended, with the answer of its probe. \<open>preloadImage_finish\<close> is the
  rest, run when the answer arrives. \<open>preloadImage\<close> is the two in sequence.
\<close>

datatype started = Settled error | Probing string "string option"

definition preloadImage_start :: "env \<Rightarrow> string \<Rightarrow> state \<Rightarrow> started \<times> state" where
  "preloadImage_start e uri st =
     (case getImageInfo e uri of
        None \<Rightarrow> (Settled (WrongFileFormat uri), catchBlock e None (WrongFileFormat uri) st)
      | Some fi \<Rightarrow>
          (case getImagePath e fi st of
             (imagePath, st1) \<Rightarrow> (Probing fi imagePath, st1)))"

fun preloadImage_finish ::
    "env \<Rightarrow> string \<Rightarrow> started \<Rightarrow> state \<Rightarrow> uriMapObject promise \<times> state" where
  "preloadImage_finish e uri (Settled x) st = (Rejected x, st)"
| "preloadImage_finish e uri (Probing fi (Some imagePath)) st =
     (Resolved \<lparr>obj_uri = uri, obj_imagePath = Some imagePath, obj_fileInfo = None\<rparr>,
      emit (Callback uri imagePath) st)"
| "preloadImage_finish e uri (Probing fi None) st =
     (case http_fetch e uri (generateAbsolutePath e (Some fi)) st of
        (Failed msg partial, st2) \<Rightarrow>
          (Rejected (External msg), catchBlock e (Some fi) (External msg) st2)
      | (Status code, st2) \<Rightarrow>
          (if code = 200 then
             (Resolved \<lparr>obj_uri = uri, obj_imagePath = None, obj_fileInfo = Some fi\<rparr>,
              emit (CallbackWrapped uri (generateAbsolutePath e (Some fi))) st2)
           else
             (case throwErrorOnInCompletedImageFetch e uri
                     (generateAbsolutePath e (Some fi)) st2 of
                (x, st3) \<Rightarrow> (Rejected x, catchBlock e (Some fi) x st3))))"

definition preloadImage :: "env \<Rightarrow> string \<Rightarrow> state \<Rightarrow> uriMapObject promise \<times> state" where
  "preloadImage e uri st =
     (case preloadImage_start e uri st of
        (s, st1) \<Rightarrow> preloadImage_finish e uri s st1)"

text \<open>
  \<open>loadImage\<close> is \<open>preloadImage(uri, callback).catch(e => console.log(e))\<close>: a
  rejection becomes a promise fulfilled with \<open>undefined\<close>. The handler runs after
  the rejection, so it belongs to the second part of the operation.
\<close>

definition loadImage_finish ::
    "env \<Rightarrow> string \<Rightarrow> started \<Rightarrow> state \<Rightarrow> uriMapObject option promise \<times> state" where
  "loadImage_finish e uri s st =
     (case preloadImage_finish e uri s st of
        (Resolved v, st1) \<Rightarrow> (Resolved (Some v), st1)
      | (Rejected x, st1) \<Rightarrow> (Resolved None, emit (ConsoleLog x) st1)
      | (Pending, st1) \<Rightarrow> (Pending, st1))"

text \<open>
  \<open>Promise.all\<close> of two promises, the second being the \<open>Promise.all\<close> of the rest:
  fulfilled when both are, rejected when one is, else pending.
\<close>

fun promiseAllCons :: "'a promise \<Rightarrow> 'a list promise \<Rightarrow> 'a list promise" where
  "promiseAllCons (Resolved r) (Resolved rs) = Resolved (r # rs)"
| "promiseAllCons (Rejected x) _ = Rejected x"
| "promiseAllCons _ (Rejected x) = Rejected x"
| "promiseAllCons _ _ = Pending"

text \<open>
  \<open>Promise.all(uris.map(loadImage))\<close>. The \<open>map\<close> is synchronous: it starts every
  operation in the order of the array, so every existence probe is issued, and
  answered from the files as they are then, before any fetch begins (\<open>startAll\<close>).
  The operations then go on as their answers arrive (\<open>finishAll\<close>). The program
  does not fix the order in which concurrent fetches complete; the model completes
  them in the order of the array.
\<close>

fun startAll :: "env \<Rightarrow> string list \<Rightarrow> state \<Rightarrow> (string \<times> started) list \<times> state" where
  "startAll e [] st = ([], st)"
| "startAll e (uri # uris) st =
     (case preloadImage_start e uri st of
        (s, st1) \<Rightarrow>
          (case startAll e uris st1 of
             (ops, st2) \<Rightarrow> ((uri, s) # ops, st2)))"

fun finishAll ::
    "env \<Rightarrow> (string \<times> started) list \<Rightarrow> state \<Rightarrow> uriMapObject option list promise \<times> state" where
  "finishAll e [] st = (Resolved [], st)"
| "finishAll e ((uri, s) # ops) st =
     (case loadImage_finish e uri s st of
        (p, st1) \<Rightarrow>
          (case finishAll e ops st1 of
             (ps, st2) \<Rightarrow> (promiseAllCons p ps, st2)))"

definition downloadImages ::
    "env \<Rightarrow> string list \<Rightarrow> state \<Rightarrow> uriMapObject option list promise \<times> state" where
  "downloadImages e uris st =
     (case startAll e uris st of
        (ops, st1) \<Rightarrow> finishAll e ops st1)"

text \<open>
  \<open>uris\<close> is a list, so the \<open>Array.isArray\<close> guard of \<open>preloadImages\<close> never
  fires. The loop over the responses writes an entry for every response that is not
  \<open>undefined\<close>; the \<open>setItem\<close> that follows is not awaited, so its failure is not
  seen.
\<close>

definition mergeResponse :: "int \<Rightarrow> uriMapObject option \<Rightarrow> cacheMapping \<Rightarrow> cacheMapping" where
  "mergeResponse current r m =
     (case r of
        None \<Rightarrow> m
      | Some v \<Rightarrow> AList.update (obj_uri v) \<lparr>fileInfo = obj_fileInfo v, created = current\<rparr> m)"

definition preloadImages ::
    "env \<Rightarrow> string list \<Rightarrow> state \<Rightarrow> (info \<times> cacheMapping) promise \<times> state" where
  "preloadImages e uris st =
     (case downloadImages e uris st of
        (Rejected x, st1) \<Rightarrow> (Rejected x, st1)
      | (Pending, st1) \<Rightarrow> (Pending, st1)
      | (Resolved responses, st1) \<Rightarrow>
          (case getCurrentCacheMappingFromAsyncStorage e st1 of
             (Inl x, st2) \<Rightarrow> (Rejected x, st2)
           | (Inr m, st2) \<Rightarrow>
               (let m' = fold (mergeResponse (Date_now e)) responses m;
                    numberOfDownloadedImages = length (filter (\<lambda>r. r \<noteq> None) responses)
                in (Resolved (\<lparr>tried = length uris, downloaded = numberOfDownloadedImages\<rparr>, m'),
                    snd (setItem e m' st2)))))"

subsection \<open>The expiry sweep\<close>

text \<open>
  JavaScript numbers are IEEE doubles. \<open>toDouble\<close> rounds a rational to the nearest
  number with a 53-bit significand, ties to even: \<open>exponentOf a\<close> is the exponent
  \<open>e\<close> with \<open>2^e \<le> a < 2^(e+1)\<close>, and the significand is rounded to an integer at
  the scale \<open>2^(e-52)\<close>. Overflow and subnormal numbers are left out: a day gap
  is zero or between \<open>2^-27\<close> and \<open>2^28\<close> in size.
\<close>

definition exponentOf :: "rat \<Rightarrow> int" where
  "exponentOf a =
     (if 1 \<le> a then int (floorlog 2 (nat \<lfloor>a\<rfloor>)) - 1
      else - int (floorlog 2 (nat (\<lceil>1 / a\<rceil> - 1))))"

definition roundHalfEven :: "rat \<Rightarrow> int" where
  "roundHalfEven m =
     (if m - of_int \<lfloor>m\<rfloor> < 1 / 2 then \<lfloor>m\<rfloor>
      else if 1 / 2 < m - of_int \<lfloor>m\<rfloor> then \<lfloor>m\<rfloor> + 1
      else if even \<lfloor>m\<rfloor> then \<lfloor>m\<rfloor> else \<lfloor>m\<rfloor> + 1)"

definition toDouble :: "rat \<Rightarrow> rat" where
  "toDouble x =
     (if x = 0 then 0
      else sgn x * of_int (roundHalfEven (\<bar>x\<bar> / power_int 2 (exponentOf \<bar>x\<bar> - 52)))
             * power_int 2 (exponentOf \<bar>x\<bar> - 52))"

text \<open>
  \<open>(date1 - date2) / (24 * 60 * 60 * 1000)\<close>. The timestamps are epoch
  milliseconds as \<open>Date.now()\<close> gives them, integers that a double holds exactly, so
  the subtraction is exact; the division rounds to a double. A number is truthy
  when it is not zero.
\<close>

definition calculateDayGap :: "int \<Rightarrow> int \<Rightarrow> rat" where
  "calculateDayGap date1 date2 = toDouble (of_int (date1 - date2) / (24 * 60 * 60 * 1000))"

definition truthy :: "rat \<Rightarrow> bool" where
  "truthy x = (x \<noteq> 0)"

text \<open>
  The inner function \<open>deleteExpiredImage(item)\<close> of \<open>clearExpiredImage\<close> unlinks the
  artifact of an expired item, and
  \<open>Promise.all(Object.values(cacheMapping).map(deleteExpiredImage))\<close> issues it for
  every item; the result says whether all unlinks were fulfilled. The threshold is
  a JavaScript number: the rational \<open>expiredPeriod\<close> stands for the double
  \<open>toDouble expiredPeriod\<close>.
\<close>

definition deleteExpiredImage :: "env \<Rightarrow> rat \<Rightarrow> int \<Rightarrow> entry \<Rightarrow> state \<Rightarrow> bool \<times> state" where
  "deleteExpiredImage e expiredPeriod now item st =
     (if calculateDayGap now (created item) > toDouble expiredPeriod
      then fs_unlink e (generateAbsolutePath e (fileInfo item)) st
      else (True, st))"

fun deleteExpiredImages :: "env \<Rightarrow> rat \<Rightarrow> int \<Rightarrow> entry list \<Rightarrow> state \<Rightarrow> bool \<times> state" where
  "deleteExpiredImages e expiredPeriod now [] st = (True, st)"
| "deleteExpiredImages e expiredPeriod now (item # items) st =
     (case deleteExpiredImage e expiredPeriod now item st of
        (ok, st1) \<Rightarrow>
          (case deleteExpiredImages e expiredPeriod now items st1 of
             (oks, st2) \<Rightarrow> (ok \<and> oks, st2)))"

text \<open>
  When the item is absent no branch settles the promise. When an unlink rejects,
  the executor returns the rejected \<open>Promise.all\<close> instead of awaiting it, so its
  \<open>catch\<close> does not see the rejection and the promise is never settled either.
\<close>

definition clearExpiredImage :: "env \<Rightarrow> rat \<Rightarrow> state \<Rightarrow> string promise \<times> state" where
  "clearExpiredImage e expiredPeriod st =
     (case getItem e st of
        (Inl x, st1) \<Rightarrow> (Rejected x, st1)
      | (Inr None, st1) \<Rightarrow> (Pending, st1)
      | (Inr (Some Unparsable), st1) \<Rightarrow> (Rejected JSONSyntaxError, st1)
      | (Inr (Some (Table m)), st1) \<Rightarrow>
          (case deleteExpiredImages e expiredPeriod (Date_now e) (map snd m) st1 of
             (False, st2) \<Rightarrow> (Pending, st2)
           | (True, st2) \<Rightarrow>
               (case setItem e
                       (filter (\<lambda>(uri, item). \<not> truthy (calculateDayGap (Date_now e) (created item))) m)
                       st2 of
                  (Some x, st3) \<Rightarrow> (Rejected x, st3)
                | (None, st3) \<Rightarrow> (Resolved ''removed expired images from cache'', st3))))"

subsection \<open>Observations on runs\<close>

text \<open>The number of network fetches a state's trace records.\<close>

fun isNetFetch :: "event \<Rightarrow> bool" where
  "isNetFetch (NetFetch uri dest) = True"
| "isNetFetch _ = False"

definition netFetches :: "state \<Rightarrow> nat" where
  "netFetches st = length (filter isNetFetch (trace st))"

text \<open>
  The state in which \<open>fetchImage\<close> starts the mapping update after a download:
  the probe and the fetch are in the trace, the artifact is on disk and the callback
  has been called.
\<close>

definition downloaded_state :: "env \<Rightarrow> string \<Rightarrow> string \<Rightarrow> state \<Rightarrow> state" where
  "downloaded_state e uri p st =
     emit (Callback uri p) (emit (NetFetch uri p)
       ((emit (FsExists p) st)\<lparr>files := insert p (files st)\<rparr>))"

text \<open>Whether a promise is fulfilled.\<close>

fun isResolved :: "'a promise \<Rightarrow> bool" where
  "isResolved (Resolved v) = True"
| "isResolved _ = False"

subsection \<open>A sample environment\<close>

text \<open>
  The concrete inputs of the examples below: every \<open>http://\<close> text is a URI, the
  hash of a URI is its text after the host, \<open>good.jpg\<close> is served with status 200,
  \<open>gone.png\<close> with 404, every other fetch breaks with a timeout and leaves a partial
  file; the file system and the store never fail; the clock stands at day 100.
\<close>

definition sampleEnv :: env where
  "sampleEnv =
     \<lparr>validUrl_isUri = (\<lambda>u. take 7 u = ''http://''),
      object_hash = (\<lambda>u. drop 9 u),
      dirs_CacheDir = ''/cache'',
      Date_now = 8640000000,
      fetch_GET = (\<lambda>u. if u = ''http://h/good.jpg'' then Status 200
                         else if u = ''http://h/gone.png'' then Status 404
                         else Failed ''timeout'' True),
      fs_exists_throws = (\<lambda>p. False),
      fs_unlink_rejects = (\<lambda>p. False),
      getItem_rejects = None,
      setItem_rejects = None\<rparr>"

definition emptyState :: state where
  "emptyState = \<lparr>files = {}, storage = None, trace = []\<rparr>"

lemmas eval_defs =
  sampleEnv_def emptyState_def getImageInfo_def indexOf_def lastIndexOf_def substringFrom_def
  substring_def clampIndex_def validImageExtensions_def Let_def generateAbsolutePath_def
  getImagePath_def emit_def fs_unlink_def res_flush_def getItem_def setItem_def
  getCurrentCacheMappingFromAsyncStorage_def updateCacheMapping_def catchBlock_def
  http_fetch_def fetchImage_def preloadImage_start_def preloadImage_def loadImage_finish_def
  downloadImages_def mergeResponse_def
  preloadImages_def calculateDayGap_def truthy_def clearExpiredImage_def netFetches_def
  downloaded_state_def throwErrorOnInCompletedImageFetch_def deleteExpiredImage_def

section \<open>Key derivation refines its specification\<close>

lemma substringFrom_drop: "0 \<le> i \<Longrightarrow> substringFrom s i = drop (nat i) s"
  unfolding substringFrom_def substring_def clampIndex_def Let_def
  by (cases "nat i \<le> length s") simp_all

lemma substringFrom_neg: "i < 0 \<Longrightarrow> substringFrom s i = s"
  unfolding substringFrom_def substring_def clampIndex_def Let_def
  by simp

lemma substring_zero: "0 \<le> i \<Longrightarrow> substring s 0 i = take (nat i) s"
  unfolding substring_def clampIndex_def Let_def
  by (cases "nat i \<le> length s") simp_all

lemma takeWhile_rev_last:
  "c \<notin> set t \<Longrightarrow> takeWhile (\<lambda>x. x \<noteq> c) (rev t @ c # r) = rev t"
  by (auto simp add: takeWhile_tail)

lemma lastIndexOf_last:
  "c \<notin> set t \<Longrightarrow> lastIndexOf (pre @ c # t) c = int (length pre)"
  by (simp add: lastIndexOf_def takeWhile_rev_last)

lemma lastIndexOf_absent: "c \<notin> set s \<Longrightarrow> lastIndexOf s c = - 1"
  by (simp add: lastIndexOf_def)

lemma lastIndexOf_nonneg: "(0 \<le> lastIndexOf s c) = (c \<in> set s)"
proof (cases "c \<in> set s")
  case True
  from split_list_last[OF True] obtain pre t where "s = pre @ c # t" and "c \<notin> set t"
    by blast
  then show ?thesis using True by (simp add: lastIndexOf_last)
next
  case False
  then show ?thesis by (simp add: lastIndexOf_absent)
qed

lemma substringFrom_lastIndexOf_last:
  "c \<notin> set t \<Longrightarrow> substringFrom (pre @ c # t) (lastIndexOf (pre @ c # t) c) = c # t"
  by (simp add: lastIndexOf_last substringFrom_drop)

lemma substringFrom_lastIndexOf_absent:
  "c \<notin> set s \<Longrightarrow> substringFrom s (lastIndexOf s c) = s"
  by (simp add: lastIndexOf_absent substringFrom_neg)

lemma substringFrom_lastIndexOf:
  assumes "c \<in> set p"
  shows "substringFrom p (lastIndexOf p c) = c # rev (takeWhile (\<lambda>x. x \<noteq> c) (rev p))"
proof -
  from split_list_last[OF assms] obtain pre t where p: "p = pre @ c # t" and t: "c \<notin> set t"
    by blast
  show ?thesis unfolding p using t
    by (simp add: substringFrom_lastIndexOf_last takeWhile_rev_last)
qed

lemma takeWhile_rev_Cons:
  "c \<in> set p \<Longrightarrow>
   takeWhile (\<lambda>x. x \<noteq> c) (rev (d # p)) = takeWhile (\<lambda>x. x \<noteq> c) (rev p)"
  by (simp add: takeWhile_append1)

lemma strip_query:
  "(if indexOf p c = - 1 then p else substring p 0 (indexOf p c))
     = takeWhile (\<lambda>x. x \<noteq> c) p"
proof (cases "c \<in> set p")
  case True
  then have "indexOf p c = int (length (takeWhile (\<lambda>x. x \<noteq> c) p))"
    by (simp add: indexOf_def)
  then show ?thesis
    using takeWhile_eq_take[of "\<lambda>x. x \<noteq> c" p] by (simp add: substring_zero)
next
  case False
  have tw: "p = takeWhile (\<lambda>x. x \<noteq> c) p"
    by (rule sym, rule takeWhile_eq_all_conv[THEN iffD2]) (use False in blast)
  have idx: "indexOf p c = - 1" using False by (simp add: indexOf_def)
  show ?thesis by (subst idx) (simp only: simp_thms if_True, rule tw)
qed

text \<open>
  The program keeps the \<open>/\<close> in front of the segment; the specification's segment
  starts after it.
\<close>

lemma path_of_uri:
  "substringFrom uri (lastIndexOf uri CHR ''/'') = lastSegment uri
   \<or> substringFrom uri (lastIndexOf uri CHR ''/'') = CHR ''/'' # lastSegment uri"
proof (cases "CHR ''/'' \<in> set uri")
  case True
  then show ?thesis by (simp add: substringFrom_lastIndexOf lastSegment_def)
next
  case False
  have "takeWhile (\<lambda>x. x \<noteq> CHR ''/'') (rev uri) = rev uri"
    by (rule takeWhile_eq_all_conv[THEN iffD2]) (use False in auto)
  then have "lastSegment uri = uri" by (simp only: lastSegment_def rev_rev_ident)
  with False show ?thesis by (simp add: substringFrom_lastIndexOf_absent)
qed

lemma pathName_of_uri:
  defines "path \<equiv> \<lambda>uri. substringFrom uri (lastIndexOf uri CHR ''/'')"
  shows "(if indexOf (path uri) CHR ''?'' = - 1 then path uri
          else substring (path uri) 0 (indexOf (path uri) CHR ''?''))
           = stripQuery (lastSegment uri)
       \<or> (if indexOf (path uri) CHR ''?'' = - 1 then path uri
          else substring (path uri) 0 (indexOf (path uri) CHR ''?''))
           = CHR ''/'' # stripQuery (lastSegment uri)"
  unfolding strip_query path_def using path_of_uri[of uri]
  by (auto simp: stripQuery_def)

lemma extension_of_pathName:
  assumes "pathName = seg \<or> pathName = CHR ''/'' # seg"
  shows "(0 \<le> lastIndexOf pathName CHR ''.'') = (CHR ''.'' \<in> set seg)"
    and "CHR ''.'' \<in> set seg \<Longrightarrow>
         substringFrom pathName (lastIndexOf pathName CHR ''.'') = extensionOf seg"
proof -
  show "(0 \<le> lastIndexOf pathName CHR ''.'') = (CHR ''.'' \<in> set seg)"
    using assms by (auto simp: lastIndexOf_nonneg)
  assume dot: "CHR ''.'' \<in> set seg"
  from assms show "substringFrom pathName (lastIndexOf pathName CHR ''.'') = extensionOf seg"
  proof
    assume "pathName = seg"
    with dot show ?thesis by (simp add: substringFrom_lastIndexOf extensionOf_def)
  next
    assume "pathName = CHR ''/'' # seg"
    with dot show ?thesis
      by (simp only: substringFrom_lastIndexOf[of "CHR ''.''" "CHR ''/'' # seg", simplified]
            takeWhile_rev_Cons extensionOf_def)
  qed
qed

lemma substringFrom_one: "substringFrom (c # x) 1 = x"
  by (simp add: substringFrom_drop)

text \<open>
  Claim C7. Key derivation accepts a URI exactly when the URI passes validation, the
  text after its last \<open>/\<close>, cut at the first \<open>?\<close>, contains a \<open>.\<close>, and the text
  from the last \<open>.\<close> to the end is one of \<open>.jpg\<close>, \<open>.png\<close>, \<open>.jpeg\<close>, \<open>.gif\<close>
  (compared character by character, so case matters); it then returns the hash of the
  whole URI, a dot and the extension without its dot. The program computes with
  indices (\<open>lastIndexOf\<close>, \<open>indexOf\<close>, \<open>substring\<close>); the specification is
  \<open>deriveKey_spec\<close>, and the two agree on every environment and every string. Both
  are functions of the URI alone, so the same URI always yields the same key.
\<close>

theorem getImageInfo_refines_spec: "getImageInfo e uri = deriveKey_spec e uri"
proof -
  define pathName where "pathName =
     (if indexOf (substringFrom uri (lastIndexOf uri CHR ''/'')) CHR ''?'' = - 1
      then substringFrom uri (lastIndexOf uri CHR ''/'')
      else substring (substringFrom uri (lastIndexOf uri CHR ''/'')) 0
             (indexOf (substringFrom uri (lastIndexOf uri CHR ''/'')) CHR ''?''))"
  define seg where "seg = stripQuery (lastSegment uri)"
  have pn: "pathName = seg \<or> pathName = CHR ''/'' # seg"
    unfolding pathName_def seg_def by (rule pathName_of_uri)
  have g: "getImageInfo e uri =
     (if validUrl_isUri e uri then
        if 0 \<le> lastIndexOf pathName CHR ''.'' then
          if substringFrom pathName (lastIndexOf pathName CHR ''.'') \<in> set validImageExtensions
          then Some (object_hash e uri @ ''.'' @
                 substringFrom (substringFrom pathName (lastIndexOf pathName CHR ''.'')) 1)
          else None
        else None
      else None)"
    unfolding getImageInfo_def pathName_def Let_def by (rule refl)
  have ext: "extensionOf seg = CHR ''.'' # tl (extensionOf seg)"
    by (simp add: extensionOf_def)
  show ?thesis
  proof (cases "CHR ''.'' \<in> set seg")
    case True
    have "substringFrom (extensionOf seg) 1 = tl (extensionOf seg)"
      by (subst ext) (simp only: substringFrom_one)
    with True show ?thesis
      unfolding g deriveKey_spec_def seg_def[symmetric]
      by (simp add: extension_of_pathName[OF pn] validImageExtensions_def)
  next
    case False
    then show ?thesis
      unfolding g deriveKey_spec_def seg_def[symmetric]
      by (simp add: extension_of_pathName(1)[OF pn])
  qed
qed

text \<open>
  The refinement at three URIs: an accepted one, one with an upper-case extension
  and one whose query holds a \<open>/\<close>, where the text after the last \<open>/\<close> of the
  whole URI decides.
\<close>

theorem getImageInfo_refines_spec_witness:
  "deriveKey_spec sampleEnv ''http://h/good.jpg'' = Some ''good.jpg.jpg''
   \<and> deriveKey_spec sampleEnv ''http://h/UP.JPG'' = None
   \<and> deriveKey_spec sampleEnv ''http://h/a.jpg?next=/b.png'' = Some ''a.jpg?next=/b.png.png''"
  using getImageInfo_refines_spec[of sampleEnv "''http://h/good.jpg''", symmetric]
    getImageInfo_refines_spec[of sampleEnv "''http://h/UP.JPG''", symmetric]
    getImageInfo_refines_spec[of sampleEnv "''http://h/a.jpg?next=/b.png''", symmetric]
  by (simp add: eval_defs)

section \<open>Frame lemmas\<close>

lemma emit_simps:
  "files (emit ev st) = files st" "storage (emit ev st) = storage st"
  "trace (emit ev st) = trace st @ [ev]"
  by (simp_all add: emit_def)

lemma netFetches_emit:
  "netFetches (emit ev st) = netFetches st + (if isNetFetch ev then 1 else 0)"
  by (simp add: netFetches_def emit_def)

lemma netFetches_files: "netFetches (st\<lparr>files := F\<rparr>) = netFetches st"
  by (simp add: netFetches_def)

lemma netFetches_storage: "netFetches (st\<lparr>storage := S\<rparr>) = netFetches st"
  by (simp add: netFetches_def)

lemma getImagePath_state:
  "snd (getImagePath e fi st) = emit (FsExists (generateAbsolutePath e (Some fi))) st"
  by (simp add: getImagePath_def Let_def)

lemma getImagePath_result:
  "fst (getImagePath e fi st) =
     (if \<not> fs_exists_throws e (generateAbsolutePath e (Some fi))
         \<and> generateAbsolutePath e (Some fi) \<in> files st
      then Some (generateAbsolutePath e (Some fi)) else None)"
  by (simp add: getImagePath_def Let_def)

lemma res_flush_storage: "storage (res_flush e p st) = storage st"
  by (simp add: res_flush_def emit_simps)

lemma catchBlock_storage: "storage (catchBlock e fi x st) = storage st"
  by (cases fi) (simp_all add: catchBlock_def fs_unlink_def emit_simps)

lemma http_fetch_storage: "storage (snd (http_fetch e uri dest st)) = storage st"
  by (simp add: http_fetch_def emit_simps split: response.split)

lemma updateCacheMapping_frame:
  "files (snd (updateCacheMapping e uri fi st)) = files st
   \<and> netFetches (snd (updateCacheMapping e uri fi st)) = netFetches st"
  by (simp add: updateCacheMapping_def getCurrentCacheMappingFromAsyncStorage_def getItem_def
        setItem_def emit_simps netFetches_emit netFetches_storage Let_def
      split: option.split stored.split)

lemma downloaded_state_simps:
  "files (downloaded_state e uri p st) = insert p (files st)"
  "netFetches (downloaded_state e uri p st) = netFetches st + 1"
  "storage (downloaded_state e uri p st) = storage st"
  by (simp_all add: downloaded_state_def emit_simps netFetches_emit netFetches_files)

section \<open>The paths of fetchImage\<close>

lemma fetchImage_no_key:
  "getImageInfo e uri = None \<Longrightarrow>
   fetchImage e uri st =
     (Rejected (WrongFileFormat uri), emit (ConsoleLog (WrongFileFormat uri)) st)"
  by (simp add: fetchImage_def catchBlock_def)

lemma fetchImage_hit:
  assumes "getImageInfo e uri = Some fi"
    and "\<not> fs_exists_throws e (generateAbsolutePath e (Some fi))"
    and "generateAbsolutePath e (Some fi) \<in> files st"
  shows "fetchImage e uri st =
     (Resolved \<lparr>obj_uri = uri, obj_imagePath = Some (generateAbsolutePath e (Some fi)),
                obj_fileInfo = None\<rparr>,
      st\<lparr>trace := trace st @ [FsExists (generateAbsolutePath e (Some fi)),
                                Callback uri (generateAbsolutePath e (Some fi))]\<rparr>)"
  using assms by (simp add: fetchImage_def getImagePath_def Let_def emit_def)

lemma fetchImage_miss:
  assumes "getImageInfo e uri = Some fi"
    and "fst (getImagePath e fi st) = None"
  shows "fetchImage e uri st =
     (case fetch_GET e uri of
        Failed msg partial \<Rightarrow>
          (Rejected (External msg),
           catchBlock e (Some fi) (External msg)
             (snd (http_fetch e uri (generateAbsolutePath e (Some fi))
                    (emit (FsExists (generateAbsolutePath e (Some fi))) st))))
      | Status code \<Rightarrow>
          if code = 200 then
            (Resolved \<lparr>obj_uri = uri, obj_imagePath = Some (generateAbsolutePath e (Some fi)),
                       obj_fileInfo = None\<rparr>,
             case updateCacheMapping e uri fi
                    (downloaded_state e uri (generateAbsolutePath e (Some fi)) st) of
               (Rejected x, st3) \<Rightarrow> emit (ConsoleLog x) st3
             | (_, st3) \<Rightarrow> st3)
          else
            (Rejected (CannotPreloadImage uri),
             catchBlock e (Some fi) (CannotPreloadImage uri)
               (res_flush e (generateAbsolutePath e (Some fi))
                  (snd (http_fetch e uri (generateAbsolutePath e (Some fi))
                         (emit (FsExists (generateAbsolutePath e (Some fi))) st))))))"
proof -
  let ?p = "generateAbsolutePath e (Some fi)"
  have gp: "getImagePath e fi st = (None, emit (FsExists ?p) st)"
    using assms(2) getImagePath_state[of e fi st] by (cases "getImagePath e fi st") simp
  show ?thesis
  proof (cases "fetch_GET e uri")
    case (Failed msg partial)
    then show ?thesis using assms(1) gp
      by (simp add: fetchImage_def http_fetch_def)
  next
    case (Status code)
    then have hf: "http_fetch e uri ?p (emit (FsExists ?p) st) =
        (Status code,
         emit (NetFetch uri ?p) ((emit (FsExists ?p) st)\<lparr>files := insert ?p (files st)\<rparr>))"
      by (simp add: http_fetch_def emit_simps)
    show ?thesis using assms(1) gp Status hf
      by (simp add: fetchImage_def downloaded_state_def throwErrorOnInCompletedImageFetch_def
            split: prod.split promise.split)
  qed
qed

text \<open>
  What a fulfilled \<open>fetchImage\<close> leaves: the object \<open>{uri, imagePath}\<close>, the artifact
  on disk, and at most one fetch more in the trace.
\<close>

lemma fetchImage_resolved:
  assumes "fetchImage e uri st = (Resolved v, st1)"
  shows "\<exists>fi. getImageInfo e uri = Some fi
          \<and> v = \<lparr>obj_uri = uri, obj_imagePath = Some (generateAbsolutePath e (Some fi)),
                  obj_fileInfo = None\<rparr>
          \<and> generateAbsolutePath e (Some fi) \<in> files st1
          \<and> netFetches st1 \<le> netFetches st + 1"
proof (cases "getImageInfo e uri")
  case None
  with assms show ?thesis by (simp add: fetchImage_no_key)
next
  case (Some fi)
  let ?p = "generateAbsolutePath e (Some fi)"
  show ?thesis
  proof (cases "fst (getImagePath e fi st)")
    case (Some imagePath)
    then have hit: "\<not> fs_exists_throws e ?p" "?p \<in> files st"
      by (simp_all add: getImagePath_result split: if_splits)
    from fetchImage_hit[OF \<open>getImageInfo e uri = Some fi\<close> hit] assms
    have "v = \<lparr>obj_uri = uri, obj_imagePath = Some ?p, obj_fileInfo = None\<rparr>"
      and "st1 = st\<lparr>trace := trace st @ [FsExists ?p, Callback uri ?p]\<rparr>"
      by simp_all
    with hit \<open>getImageInfo e uri = Some fi\<close> show ?thesis
      by (simp add: netFetches_def)
  next
    case None
    note miss = fetchImage_miss[OF \<open>getImageInfo e uri = Some fi\<close> None]
    show ?thesis
    proof (cases "fetch_GET e uri")
      case (Failed msg partial)
      with miss assms show ?thesis by simp
    next
      case (Status code)
      show ?thesis
      proof (cases "code = 200")
        case False
        with Status miss assms show ?thesis by simp
      next
        case True
        let ?u = "updateCacheMapping e uri fi (downloaded_state e uri ?p st)"
        from True Status miss assms
        have v: "v = \<lparr>obj_uri = uri, obj_imagePath = Some ?p, obj_fileInfo = None\<rparr>"
          and st1: "st1 = (case ?u of (Rejected x, st3) \<Rightarrow> emit (ConsoleLog x) st3
                                   | (_, st3) \<Rightarrow> st3)"
          by simp_all
        have fr: "files (snd ?u) = insert ?p (files st)"
                 "netFetches (snd ?u) = netFetches st + 1"
          using updateCacheMapping_frame[of e uri fi "downloaded_state e uri ?p st"]
          by (simp_all add: downloaded_state_simps)
        have "files st1 = insert ?p (files st) \<and> netFetches st1 = netFetches st + 1"
          unfolding st1 using fr
          by (cases ?u; cases "fst ?u") (simp_all add: emit_simps netFetches_emit)
        with v \<open>getImageInfo e uri = Some fi\<close> show ?thesis by simp
      qed
    qed
  qed
qed

section \<open>Rejected formats\<close>

text \<open>
  Claim C5. For every URI for which key derivation yields nothing (it fails URI
  validation or lacks a recognized image extension), \<open>fetchImage\<close> rejects with the
  wrong-file-format error of that URI and performs no network fetch and no file-system
  operation: files and stored item are as before, and the only call the trace gains
  is the \<open>console.log\<close> of the error (no probe, no fetch, no unlink).
\<close>

theorem fetchImage_wrong_format:
  assumes "getImageInfo e uri = None"
  shows "fetchImage e uri st =
           (Rejected (WrongFileFormat uri),
            st\<lparr>trace := trace st @ [ConsoleLog (WrongFileFormat uri)]\<rparr>)"
  using assms by (simp add: fetchImage_def catchBlock_def emit_def)

theorem fetchImage_wrong_format_witness:
  "getImageInfo sampleEnv ''http://h/readme.txt'' = None
   \<and> getImageInfo sampleEnv ''ftp.jpg'' = None
   \<and> fetchImage sampleEnv ''http://h/readme.txt'' emptyState =
       (Rejected (WrongFileFormat ''http://h/readme.txt''),
        \<lparr>files = {}, storage = None,
         trace = [ConsoleLog (WrongFileFormat ''http://h/readme.txt'')]\<rparr>)"
proof -
  have k: "getImageInfo sampleEnv ''http://h/readme.txt'' = None"
    by (simp add: eval_defs)
  have k': "getImageInfo sampleEnv ''ftp.jpg'' = None"
    by (simp add: eval_defs)
  show ?thesis
    using k k' fetchImage_wrong_format[OF k, of emptyState] by (simp add: emptyState_def)
qed

section \<open>The mapping update of a URI that is already in the table\<close>

lemma getCurrent_present:
  "storage st = Some (Table m) \<Longrightarrow>
   getCurrentCacheMappingFromAsyncStorage e st =
     (case getItem_rejects e of
        Some msg \<Rightarrow> (Inl (External msg), emit GetItem st)
      | None \<Rightarrow> (Inr m, emit GetItem st))"
  by (simp add: getCurrentCacheMappingFromAsyncStorage_def getItem_def emit_simps
      split: option.split)

lemma updateCacheMapping_present:
  assumes "storage st = Some (Table m)" and "map_of m uri \<noteq> None"
  shows "updateCacheMapping e uri fi st =
     (case getItem_rejects e of Some msg \<Rightarrow> Rejected (External msg) | None \<Rightarrow> Resolved m,
      emit GetItem st)"
  using assms by (simp add: updateCacheMapping_def getCurrent_present split: option.split)

lemma fetchImage_storage_present:
  assumes "storage st = Some (Table m)" and "map_of m uri \<noteq> None"
  shows "storage (snd (fetchImage e uri st)) = storage st"
proof (cases "getImageInfo e uri")
  case None
  then show ?thesis by (simp add: fetchImage_no_key emit_simps)
next
  case (Some fi)
  let ?p = "generateAbsolutePath e (Some fi)"
  show ?thesis
  proof (cases "fst (getImagePath e fi st)")
    case (Some imagePath)
    then have hit: "\<not> fs_exists_throws e ?p" "?p \<in> files st"
      by (simp_all add: getImagePath_result split: if_splits)
    show ?thesis using fetchImage_hit[OF \<open>getImageInfo e uri = Some fi\<close> hit] by simp
  next
    case None
    note miss = fetchImage_miss[OF \<open>getImageInfo e uri = Some fi\<close> None]
    show ?thesis
    proof (cases "fetch_GET e uri")
      case (Failed msg partial)
      with miss show ?thesis
        by (simp add: catchBlock_storage http_fetch_storage emit_simps)
    next
      case (Status code)
      show ?thesis
      proof (cases "code = 200")
        case False
        with Status miss show ?thesis
          by (simp add: catchBlock_storage res_flush_storage http_fetch_storage emit_simps)
      next
        case True
        have "storage (downloaded_state e uri ?p st) = Some (Table m)"
          using assms(1) by (simp add: downloaded_state_simps)
        from updateCacheMapping_present[OF this assms(2), of e fi]
        have "storage (snd (updateCacheMapping e uri fi (downloaded_state e uri ?p st)))
                = storage st"
          by (simp add: emit_simps downloaded_state_simps)
        with True Status miss show ?thesis
          by (auto simp add: emit_simps split: prod.split promise.split)
      qed
    qed
  qed
qed

text \<open>
  Claim C10. For every URI already present in the mapping table, the single-URI
  mapping update \<open>updateCacheMapping\<close> performs no storage write and leaves the table
  unchanged: the only call it issues is the read of the item, and when the read
  succeeds it resolves with the table as it was, so the entry keeps its \<open>created\<close>
  timestamp. The same holds for a whole \<open>fetchImage\<close> of such a URI, also when the
  artifact was missing from disk and has just been downloaded again: the stored
  table afterwards is the table before.
\<close>

theorem updateCacheMapping_present_no_write:
  assumes "storage st = Some (Table m)" and "map_of m uri \<noteq> None"
  shows "snd (updateCacheMapping e uri fi st) = st\<lparr>trace := trace st @ [GetItem]\<rparr>
       \<and> (getItem_rejects e = None \<longrightarrow> fst (updateCacheMapping e uri fi st) = Resolved m)
       \<and> storage (snd (fetchImage e uri st)) = Some (Table m)"
  using updateCacheMapping_present[OF assms, of e fi]
    fetchImage_storage_present[OF assms, of e] assms(1)
  by (simp add: emit_def)

text \<open>
  The entry of \<open>good.jpg\<close> was created at time 5 and its artifact is gone from disk:
  \<open>fetchImage\<close> downloads it again and the entry still says 5.
\<close>

theorem updateCacheMapping_present_no_write_witness:
  "fst (fetchImage sampleEnv ''http://h/good.jpg''
          \<lparr>files = {},
           storage = Some (Table [(''http://h/good.jpg'',
                       \<lparr>fileInfo = Some ''good.jpg.jpg'', created = 5\<rparr>)]),
           trace = []\<rparr>)
     = Resolved \<lparr>obj_uri = ''http://h/good.jpg'',
                 obj_imagePath = Some ''/cache/good.jpg.jpg'', obj_fileInfo = None\<rparr>
   \<and> netFetches (snd (fetchImage sampleEnv ''http://h/good.jpg''
          \<lparr>files = {},
           storage = Some (Table [(''http://h/good.jpg'',
                       \<lparr>fileInfo = Some ''good.jpg.jpg'', created = 5\<rparr>)]),
           trace = []\<rparr>)) = 1
   \<and> storage (snd (fetchImage sampleEnv ''http://h/good.jpg''
          \<lparr>files = {},
           storage = Some (Table [(''http://h/good.jpg'',
                       \<lparr>fileInfo = Some ''good.jpg.jpg'', created = 5\<rparr>)]),
           trace = []\<rparr>))
     = Some (Table [(''http://h/good.jpg'', \<lparr>fileInfo = Some ''good.jpg.jpg'', created = 5\<rparr>)])
   \<and> updateCacheMapping sampleEnv ''http://h/good.jpg'' ''good.jpg.jpg''
          \<lparr>files = {},
           storage = Some (Table [(''http://h/good.jpg'',
                       \<lparr>fileInfo = Some ''good.jpg.jpg'', created = 5\<rparr>)]),
           trace = []\<rparr>
     = (Resolved [(''http://h/good.jpg'', \<lparr>fileInfo = Some ''good.jpg.jpg'', created = 5\<rparr>)],
        \<lparr>files = {},
         storage = Some (Table [(''http://h/good.jpg'',
                     \<lparr>fileInfo = Some ''good.jpg.jpg'', created = 5\<rparr>)]),
         trace = [GetItem]\<rparr>)"
proof -
  let ?m = "[(''http://h/good.jpg'', \<lparr>fileInfo = Some ''good.jpg.jpg'', created = 5\<rparr>)]"
  let ?st = "\<lparr>files = {}, storage = Some (Table ?m), trace = []\<rparr>"
  have a: "storage ?st = Some (Table ?m)" by simp
  have b: "map_of ?m ''http://h/good.jpg'' \<noteq> None" by simp
  have g: "getItem_rejects sampleEnv = None" by (simp add: sampleEnv_def)
  have run: "fst (fetchImage sampleEnv ''http://h/good.jpg'' ?st)
       = Resolved \<lparr>obj_uri = ''http://h/good.jpg'',
                   obj_imagePath = Some ''/cache/good.jpg.jpg'', obj_fileInfo = None\<rparr>
     \<and> netFetches (snd (fetchImage sampleEnv ''http://h/good.jpg'' ?st)) = 1"
    by (simp add: eval_defs)
  from updateCacheMapping_present_no_write[OF a b, of sampleEnv "''good.jpg.jpg''"] g run
  show ?thesis by (simp add: prod_eq_iff)
qed

section \<open>Two calls in sequence\<close>

text \<open>
  Claim C6. For every valid image URI, two calls of \<open>fetchImage\<close> in sequence issue
  at most one network fetch: when the first call has succeeded, the artifact is on
  disk, and the second call finds it through the existence probe and resolves with
  the same \<open>{uri, path}\<close> object as a cache hit, issuing the probe and the callback
  and no fetch. The second call may meet another network, store and clock (\<open>e'\<close>);
  the URI validator, the hash and the cache directory are the same, and its
  existence probe answers (a probe that throws is read as a miss by the program).
\<close>

theorem fetchImage_second_call_is_hit:
  assumes first: "fetchImage e uri st = (Resolved v, st1)"
    and same: "validUrl_isUri e' = validUrl_isUri e" "object_hash e' = object_hash e"
              "dirs_CacheDir e' = dirs_CacheDir e"
    and probe: "\<not> fs_exists_throws e' (generateAbsolutePath e (getImageInfo e uri))"
  shows "fetchImage e' uri st1 =
           (Resolved v,
            st1\<lparr>trace := trace st1 @
                   [FsExists (generateAbsolutePath e (getImageInfo e uri)),
                    Callback uri (generateAbsolutePath e (getImageInfo e uri))]\<rparr>)
       \<and> netFetches (snd (fetchImage e' uri st1)) = netFetches st1
       \<and> netFetches (snd (fetchImage e' uri st1)) \<le> netFetches st + 1"
proof -
  from fetchImage_resolved[OF first] obtain fi where
    key: "getImageInfo e uri = Some fi"
    and v: "v = \<lparr>obj_uri = uri, obj_imagePath = Some (generateAbsolutePath e (Some fi)),
                  obj_fileInfo = None\<rparr>"
    and there: "generateAbsolutePath e (Some fi) \<in> files st1"
    and one: "netFetches st1 \<le> netFetches st + 1"
    by blast
  have "getImageInfo e' uri = getImageInfo e uri"
    by (simp only: getImageInfo_def same)
  with key have key': "getImageInfo e' uri = Some fi" by simp
  have path': "generateAbsolutePath e' (Some fi) = generateAbsolutePath e (Some fi)"
    using same by (simp add: generateAbsolutePath_def)
  have hit: "fetchImage e' uri st1 =
     (Resolved v, st1\<lparr>trace := trace st1 @ [FsExists (generateAbsolutePath e (Some fi)),
                                Callback uri (generateAbsolutePath e (Some fi))]\<rparr>)"
    using fetchImage_hit[OF key', unfolded path'] probe there key v by simp
  show ?thesis using hit one key by (simp add: netFetches_def)
qed

text \<open>
  The first call downloads \<open>good.jpg\<close>; the second call, made when the network is
  down, is a hit, and the trace of both holds one fetch.
\<close>

theorem fetchImage_second_call_is_hit_witness:
  "fst (fetchImage sampleEnv ''http://h/good.jpg'' emptyState)
     = Resolved \<lparr>obj_uri = ''http://h/good.jpg'',
                 obj_imagePath = Some ''/cache/good.jpg.jpg'', obj_fileInfo = None\<rparr>
   \<and> fst (fetchImage (sampleEnv\<lparr>fetch_GET := (\<lambda>u. Failed ''offline'' False)\<rparr>)
            ''http://h/good.jpg''
            (snd (fetchImage sampleEnv ''http://h/good.jpg'' emptyState)))
     = Resolved \<lparr>obj_uri = ''http://h/good.jpg'',
                 obj_imagePath = Some ''/cache/good.jpg.jpg'', obj_fileInfo = None\<rparr>
   \<and> netFetches (snd (fetchImage (sampleEnv\<lparr>fetch_GET := (\<lambda>u. Failed ''offline'' False)\<rparr>)
            ''http://h/good.jpg''
            (snd (fetchImage sampleEnv ''http://h/good.jpg'' emptyState))))
     = 1"
proof -
  let ?e' = "sampleEnv\<lparr>fetch_GET := (\<lambda>u. Failed ''offline'' False)\<rparr>"
  let ?v = "\<lparr>obj_uri = ''http://h/good.jpg'',
             obj_imagePath = Some ''/cache/good.jpg.jpg'', obj_fileInfo = None\<rparr>"
  have r: "fst (fetchImage sampleEnv ''http://h/good.jpg'' emptyState) = Resolved ?v"
    and n: "netFetches (snd (fetchImage sampleEnv ''http://h/good.jpg'' emptyState)) = 1"
    by (simp_all add: eval_defs)
  have first: "fetchImage sampleEnv ''http://h/good.jpg'' emptyState
      = (Resolved ?v, snd (fetchImage sampleEnv ''http://h/good.jpg'' emptyState))"
    using r by (simp add: prod_eq_iff)
  have probe: "\<not> fs_exists_throws ?e'
      (generateAbsolutePath sampleEnv (getImageInfo sampleEnv ''http://h/good.jpg''))"
    by (simp add: sampleEnv_def)
  have same: "validUrl_isUri ?e' = validUrl_isUri sampleEnv"
    "object_hash ?e' = object_hash sampleEnv" "dirs_CacheDir ?e' = dirs_CacheDir sampleEnv"
    by simp_all
  note second = fetchImage_second_call_is_hit[OF first same probe]
  have h: "fst (fetchImage ?e' ''http://h/good.jpg''
                 (snd (fetchImage sampleEnv ''http://h/good.jpg'' emptyState))) = Resolved ?v"
    using second[THEN conjunct1] by simp
  have c: "netFetches (snd (fetchImage ?e' ''http://h/good.jpg''
                 (snd (fetchImage sampleEnv ''http://h/good.jpg'' emptyState)))) = 1"
    using second[THEN conjunct2, THEN conjunct1] n by (simp only:)
  show ?thesis using r h c by (simp only: simp_thms)
qed

section \<open>A failing mapping store\<close>

text \<open>
  Claim C9. For every URI whose network fetch succeeds with status 200,
  \<open>fetchImage\<close> resolves with \<open>{uri, path}\<close> whatever the mapping store does: the
  environment's \<open>getItem\<close> and \<open>setItem\<close> may reject and the stored item may be
  anything. When the mapping update that follows the download rejects, its error is
  logged and the promise stays resolved.
\<close>

theorem fetchImage_resolves_when_store_fails:
  assumes key: "getImageInfo e uri = Some fi"
    and ok: "fetch_GET e uri = Status 200"
  shows "fst (fetchImage e uri st) =
           Resolved \<lparr>obj_uri = uri, obj_imagePath = Some (generateAbsolutePath e (Some fi)),
                     obj_fileInfo = None\<rparr>
       \<and> (\<forall>x st3. fst (getImagePath e fi st) = None
             \<and> updateCacheMapping e uri fi
                 (downloaded_state e uri (generateAbsolutePath e (Some fi)) st) = (Rejected x, st3)
            \<longrightarrow> snd (fetchImage e uri st) = emit (ConsoleLog x) st3)"
proof (cases "fst (getImagePath e fi st)")
  case (Some imagePath)
  then have hit: "\<not> fs_exists_throws e (generateAbsolutePath e (Some fi))"
      "generateAbsolutePath e (Some fi) \<in> files st"
    by (simp_all add: getImagePath_result split: if_splits)
  show ?thesis using fetchImage_hit[OF key hit] Some by simp
next
  case None
  show ?thesis using fetchImage_miss[OF key None] ok None by auto
qed

text \<open>
  With a store whose \<open>setItem\<close> rejects (disk full), the download of \<open>good.jpg\<close>
  resolves, the stored item stays absent and the last call is the log of the error.
\<close>

theorem fetchImage_resolves_when_store_fails_witness:
  "getImageInfo (sampleEnv\<lparr>setItem_rejects := Some ''disk full''\<rparr>) ''http://h/good.jpg''
     = Some ''good.jpg.jpg''
   \<and> fetch_GET (sampleEnv\<lparr>setItem_rejects := Some ''disk full''\<rparr>) ''http://h/good.jpg''
     = Status 200
   \<and> fst (updateCacheMapping (sampleEnv\<lparr>setItem_rejects := Some ''disk full''\<rparr>)
            ''http://h/good.jpg'' ''good.jpg.jpg''
            (downloaded_state (sampleEnv\<lparr>setItem_rejects := Some ''disk full''\<rparr>)
               ''http://h/good.jpg'' ''/cache/good.jpg.jpg'' emptyState))
     = Rejected (External ''disk full'')
   \<and> fst (fetchImage (sampleEnv\<lparr>setItem_rejects := Some ''disk full''\<rparr>)
            ''http://h/good.jpg'' emptyState)
     = Resolved \<lparr>obj_uri = ''http://h/good.jpg'',
                 obj_imagePath = Some ''/cache/good.jpg.jpg'', obj_fileInfo = None\<rparr>
   \<and> last (trace (snd (fetchImage (sampleEnv\<lparr>setItem_rejects := Some ''disk full''\<rparr>)
            ''http://h/good.jpg'' emptyState)))
     = ConsoleLog (External ''disk full'')
   \<and> storage (snd (fetchImage (sampleEnv\<lparr>setItem_rejects := Some ''disk full''\<rparr>)
            ''http://h/good.jpg'' emptyState)) = None"
proof -
  let ?e = "sampleEnv\<lparr>setItem_rejects := Some ''disk full''\<rparr>"
  let ?u = "updateCacheMapping ?e ''http://h/good.jpg'' ''good.jpg.jpg''
              (downloaded_state ?e ''http://h/good.jpg'' ''/cache/good.jpg.jpg'' emptyState)"
  have key: "getImageInfo ?e ''http://h/good.jpg'' = Some ''good.jpg.jpg''"
    by (simp add: eval_defs)
  have ok: "fetch_GET ?e ''http://h/good.jpg'' = Status 200"
    by (simp add: sampleEnv_def)
  have p: "generateAbsolutePath ?e (Some ''good.jpg.jpg'') = ''/cache/good.jpg.jpg''"
    by (simp add: eval_defs)
  have miss: "fst (getImagePath ?e ''good.jpg.jpg'' emptyState) = None"
    by (simp add: eval_defs)
  have u: "fst ?u = Rejected (External ''disk full'')" and s: "storage (snd ?u) = None"
    by (simp_all add: eval_defs)
  then have u': "?u = (Rejected (External ''disk full''), snd ?u)"
    by (simp add: prod_eq_iff)
  from fetchImage_resolves_when_store_fails[OF key ok, of emptyState, unfolded p] miss u'
  have "fst (fetchImage ?e ''http://h/good.jpg'' emptyState)
          = Resolved \<lparr>obj_uri = ''http://h/good.jpg'',
                      obj_imagePath = Some ''/cache/good.jpg.jpg'', obj_fileInfo = None\<rparr>"
    and "snd (fetchImage ?e ''http://h/good.jpg'' emptyState)
          = emit (ConsoleLog (External ''disk full'')) (snd ?u)"
    by blast+
  with key ok u s show ?thesis by (simp add: emit_simps)
qed

section \<open>A failed fetch\<close>

text \<open>
  What \<open>fetchImage\<close> does when the probe finds no artifact and the fetch ends with
  a non-200 status or a transport error: after a non-200 status it rejects with the
  cannot-preload error that carries the URI, after a transport error with the
  transport error itself; in both cases it issues an unlink of the destination
  path. When that unlink rejects, the failure is logged and the rejection is the
  same; when it does not, no file remains at the destination path.
\<close>

lemma fetchImage_failed_fetch:
  assumes key: "getImageInfo e uri = Some fi"
    and miss: "fst (getImagePath e fi st) = None"
    and fail: "fetch_GET e uri \<noteq> Status 200"
  shows "fst (fetchImage e uri st) =
           Rejected (case fetch_GET e uri of
                       Status code \<Rightarrow> CannotPreloadImage uri
                     | Failed msg partial \<Rightarrow> External msg)
       \<and> FsUnlink (generateAbsolutePath e (Some fi)) \<in> set (trace (snd (fetchImage e uri st)))
       \<and> (fs_unlink_rejects e (generateAbsolutePath e (Some fi))
            \<longrightarrow> last (trace (snd (fetchImage e uri st))) = ConsoleLogCannotUnlink)
       \<and> (\<not> fs_unlink_rejects e (generateAbsolutePath e (Some fi))
            \<longrightarrow> generateAbsolutePath e (Some fi) \<notin> files (snd (fetchImage e uri st)))"
proof (cases "fetch_GET e uri")
  case (Failed msg partial)
  show ?thesis using fetchImage_miss[OF key miss] Failed
    by (simp add: catchBlock_def fs_unlink_def emit_simps)
next
  case (Status code)
  with fail have "code \<noteq> 200" by simp
  then show ?thesis using fetchImage_miss[OF key miss] Status
    by (simp add: catchBlock_def fs_unlink_def emit_simps)
qed

text \<open>
  \<open>gone.png\<close> is answered with status 404: the body was written to the destination,
  the rejection names the URI and the destination is empty afterwards.
\<close>

lemma fetchImage_failed_fetch_example:
  "fst (fetchImage sampleEnv ''http://h/gone.png'' emptyState)
       = Rejected (CannotPreloadImage ''http://h/gone.png'')
   \<and> ''/cache/gone.png.png'' \<notin> files (snd (fetchImage sampleEnv ''http://h/gone.png'' emptyState))
   \<and> ''/cache/gone.png.png''
       \<in> files (snd (http_fetch sampleEnv ''http://h/gone.png'' ''/cache/gone.png.png'' emptyState))"
  by (simp add: eval_defs)

text \<open>
  Claim C8 (the program departs from it). The claim says that every failed fetch, a
  transport error included, rejects with an error that identifies the URI. The fetch
  of \<open>down.gif\<close> breaks with a timeout: \<open>fetchImage\<close> rejects with the timeout as
  the fetch library raised it, not with the cannot-preload error of the URI. The
  other rejections of the same function carry the URI (wrong file format, non-200
  status), and the two sibling modules under \<open>src/src\<close> pass a transport error
  through \<open>throwErrorOnInCompletedImageFetch\<close> as well; in this module the
  \<open>await\<close> of the fetch has no \<open>catch\<close> of its own, so the outer \<open>catch\<close> forwards
  the library's error. The partial file the fetch left is unlinked.
\<close>

theorem fetchImage_transport_error_lacks_uri:
  "getImageInfo sampleEnv ''http://h/down.gif'' = Some ''down.gif.gif''
   \<and> fetch_GET sampleEnv ''http://h/down.gif'' = Failed ''timeout'' True
   \<and> fst (fetchImage sampleEnv ''http://h/down.gif'' emptyState) = Rejected (External ''timeout'')
   \<and> fst (fetchImage sampleEnv ''http://h/down.gif'' emptyState)
       \<noteq> Rejected (CannotPreloadImage ''http://h/down.gif'')
   \<and> ''/cache/down.gif.gif'' \<notin> files (snd (fetchImage sampleEnv ''http://h/down.gif'' emptyState))"
  by (simp add: eval_defs)

section \<open>Double precision\<close>

lemma roundHalfEven_of_int: "roundHalfEven (of_int z) = z"
  by (simp add: roundHalfEven_def)

lemma roundHalfEven_pos: "1 \<le> m \<Longrightarrow> 0 < roundHalfEven m"
proof -
  assume "1 \<le> m"
  then have "1 \<le> \<lfloor>m\<rfloor>" by (simp add: le_floor_iff)
  then show ?thesis by (simp add: roundHalfEven_def)
qed

lemma exponentOf_lower:
  assumes "0 < a"
  shows "power_int 2 (exponentOf a) \<le> a"
proof (cases "1 \<le> a")
  case True
  define n where "n = nat \<lfloor>a\<rfloor>"
  have n: "0 < n" using True by (simp add: n_def le_floor_iff)
  have na: "of_nat n \<le> a" using True by (simp add: n_def)
  from floorlog_bounds[OF n, of 2] have "2 ^ (floorlog 2 n - 1) \<le> n" by simp
  then have "(of_nat (2 ^ (floorlog 2 n - 1)) :: rat) \<le> of_nat n"
    by (simp only: of_nat_le_iff)
  moreover have "(of_nat (2 ^ (floorlog 2 n - 1)) :: rat) = 2 ^ (floorlog 2 n - 1)"
    by simp
  ultimately have "(2::rat) ^ (floorlog 2 n - 1) \<le> of_nat n" by (simp only:)
  then have b: "(2::rat) ^ (floorlog 2 n - 1) \<le> a" using na by (rule order_trans)
  have "floorlog 2 n \<noteq> 0" using n floorlog_eq_zero_iff[of 2 n] by simp
  then have k: "0 < floorlog 2 n" by simp
  have "exponentOf a = int (floorlog 2 n - 1)"
    using True k by (simp add: exponentOf_def n_def[symmetric])
  then show ?thesis using b by (simp add: power_int_def)
next
  case False
  define c where "c = \<lceil>1 / a\<rceil>"
  define n where "n = nat (c - 1)"
  from False assms have "1 < 1 / a" by (simp add: field_simps)
  then have c2: "2 \<le> c" unfolding c_def by (simp add: le_ceiling_iff)
  then have n: "0 < n" by (simp add: n_def)
  from floorlog_bounds[OF n, of 2] have "n < 2 ^ floorlog 2 n" by simp
  then have "c - 1 < 2 ^ floorlog 2 n" using c2 by (simp add: n_def nat_less_iff)
  then have "c \<le> 2 ^ floorlog 2 n" by simp
  then have "(of_int c :: rat) \<le> of_int (2 ^ floorlog 2 n)" by (simp only: of_int_le_iff)
  moreover have "(of_int (2 ^ floorlog 2 n) :: rat) = 2 ^ floorlog 2 n" by simp
  ultimately have "(of_int c :: rat) \<le> 2 ^ floorlog 2 n" by (simp only:)
  moreover have "1 / a \<le> of_int c" unfolding c_def by (rule le_of_int_ceiling)
  ultimately have "1 / a \<le> 2 ^ floorlog 2 n" by (rule order_trans[rotated])
  then have "1 / 2 ^ floorlog 2 n \<le> a" using assms
    by (simp add: field_simps)
  moreover have "exponentOf a = - int (floorlog 2 n)"
    using False by (simp add: exponentOf_def n_def c_def)
  moreover have "power_int (2::rat) (- int (floorlog 2 n)) = 1 / 2 ^ floorlog 2 n"
    by (simp add: power_int_minus inverse_eq_divide)
  ultimately show ?thesis by (simp only:)
qed

text \<open>Rounding keeps zero apart from the other numbers.\<close>

lemma toDouble_zero_iff: "(toDouble x = 0) = (x = 0)"
proof (cases "x = 0")
  case True
  then show ?thesis by (simp add: toDouble_def)
next
  case False
  define q :: rat where "q = power_int 2 (exponentOf \<bar>x\<bar> - 52)"
  have q: "0 < q" by (simp add: q_def)
  have "power_int 2 (exponentOf \<bar>x\<bar>) \<le> \<bar>x\<bar>" using False by (intro exponentOf_lower) simp
  moreover have "power_int (2::rat) (exponentOf \<bar>x\<bar>) = q * 2 ^ 52"
    by (simp add: q_def power_int_diff)
  ultimately have "q * 2 ^ 52 \<le> \<bar>x\<bar>" by simp
  then have "2 ^ 52 \<le> \<bar>x\<bar> / q" using q by (simp add: field_simps)
  then have "1 \<le> \<bar>x\<bar> / q" by simp
  then have "0 < roundHalfEven (\<bar>x\<bar> / q)" by (rule roundHalfEven_pos)
  then show ?thesis using False q by (simp add: toDouble_def q_def[symmetric] sgn_eq_0_iff)
qed

text \<open>A natural number below \<open>2^53\<close> is a double.\<close>

lemma toDouble_of_nat:
  assumes "n < 2 ^ 53"
  shows "toDouble (of_nat n) = of_nat n"
proof (cases "n = 0")
  case True
  then show ?thesis by (simp add: toDouble_def)
next
  case False
  define k where "k = floorlog 2 n"
  define j where "j = 53 - k"
  define q :: rat where "q = power_int 2 (exponentOf \<bar>of_nat n\<bar> - 52)"
  have "k \<noteq> 0" using False floorlog_eq_zero_iff[of 2 n] by (simp add: k_def)
  then have k0: "0 < k" by simp
  have k53: "k \<le> 53" using assms by (simp add: k_def floorlog_le_iff)
  have "exponentOf \<bar>of_nat n\<bar> = int k - 1"
    using False by (simp add: exponentOf_def k_def)
  then have "exponentOf \<bar>of_nat n\<bar> - 52 = - int j"
    using k53 by (simp add: j_def)
  then have q: "q = 1 / 2 ^ j"
    by (simp add: q_def power_int_minus inverse_eq_divide)
  have "\<bar>of_nat n :: rat\<bar> / q = of_int (int n * 2 ^ j)"
    by (simp add: q)
  then have r: "roundHalfEven (\<bar>of_nat n\<bar> / q) = int n * 2 ^ j"
    by (simp only: roundHalfEven_of_int)
  have "toDouble (of_nat n) = sgn (of_nat n) * of_int (roundHalfEven (\<bar>of_nat n\<bar> / q)) * q"
    using False by (simp add: toDouble_def q_def)
  also have "\<dots> = of_int (int n * 2 ^ j) * (1 / 2 ^ j)"
    using False by (simp only: r) (simp add: q)
  also have "\<dots> = of_nat n" by simp
  finally show ?thesis .
qed

lemma toDouble_numeral [simp]:
  "numeral w < (2::nat) ^ 53 \<Longrightarrow> toDouble (numeral w) = numeral w"
  using toDouble_of_nat[of "numeral w"] by simp

lemma toDouble_0 [simp]: "toDouble 0 = 0"
  by (simp add: toDouble_def)

lemma toDouble_1 [simp]: "toDouble 1 = 1"
  using toDouble_of_nat[of 1] by simp

lemma calculateDayGap_zero: "truthy (calculateDayGap now c) = (c \<noteq> now)"
  by (auto simp add: truthy_def calculateDayGap_def toDouble_zero_iff)

section \<open>The batch\<close>

lemma preloadImage_start_files: "files (snd (preloadImage_start e uri st)) = files st"
  by (simp add: preloadImage_start_def catchBlock_def getImagePath_def Let_def emit_simps
      split: option.split)

text \<open>The answer a starting operation gets depends on the files only.\<close>

lemma preloadImage_start_fst:
  "fst (preloadImage_start e uri st) =
     (case getImageInfo e uri of
        None \<Rightarrow> Settled (WrongFileFormat uri)
      | Some fi \<Rightarrow>
          Probing fi (if \<not> fs_exists_throws e (generateAbsolutePath e (Some fi))
                         \<and> generateAbsolutePath e (Some fi) \<in> files st
                      then Some (generateAbsolutePath e (Some fi)) else None))"
  by (simp add: preloadImage_start_def getImagePath_def Let_def split: option.split)

text \<open>What a suspended operation settles to does not depend on the state it resumes in.\<close>

lemma preloadImage_finish_fst:
  "fst (preloadImage_finish e uri s st) =
     (case s of
        Settled x \<Rightarrow> Rejected x
      | Probing fi (Some imagePath) \<Rightarrow>
          Resolved \<lparr>obj_uri = uri, obj_imagePath = Some imagePath, obj_fileInfo = None\<rparr>
      | Probing fi None \<Rightarrow>
          (case fetch_GET e uri of
             Failed msg partial \<Rightarrow> Rejected (External msg)
           | Status code \<Rightarrow>
               if code = 200
               then Resolved \<lparr>obj_uri = uri, obj_imagePath = None, obj_fileInfo = Some fi\<rparr>
               else Rejected (CannotPreloadImage uri)))"
  by (cases "(e, uri, s, st)" rule: preloadImage_finish.cases)
     (simp_all add: http_fetch_def throwErrorOnInCompletedImageFetch_def split: response.split)

lemma preloadImage_finish_settles: "fst (preloadImage_finish e uri s st) \<noteq> Pending"
  by (simp add: preloadImage_finish_fst split: started.split option.split response.split)

lemma preloadImage_fst:
  "fst (preloadImage e uri st) =
     fst (preloadImage_finish e uri (fst (preloadImage_start e uri st)) st')"
  by (cases "preloadImage_start e uri st")
     (simp add: preloadImage_def preloadImage_finish_fst)

text \<open>
  When one per-URI operation is fulfilled: a key was derived and either the probe
  found the artifact or the fetch was answered with status 200.
\<close>

lemma preloadImage_resolves_iff:
  "isResolved (fst (preloadImage e uri st)) =
     (\<exists>fi. getImageInfo e uri = Some fi
        \<and> (fst (getImagePath e fi st) \<noteq> None \<or> fetch_GET e uri = Status 200))"
  by (cases "getImageInfo e uri"; cases "fetch_GET e uri")
     (simp_all add: preloadImage_fst[of e uri st st] preloadImage_finish_fst
        preloadImage_start_fst getImagePath_result)

lemma startAll_frame: "files (snd (startAll e uris st)) = files st"
proof (induction uris arbitrary: st)
  case Nil
  show ?case by simp
next
  case (Cons uri uris)
  have "snd (startAll e (uri # uris) st) = snd (startAll e uris (snd (preloadImage_start e uri st)))"
    by (cases "preloadImage_start e uri st";
        cases "startAll e uris (snd (preloadImage_start e uri st))") simp
  then show ?case using Cons.IH[of "snd (preloadImage_start e uri st)"]
    by (simp add: preloadImage_start_files)
qed

text \<open>Every operation of a batch starts against the files the batch found.\<close>

lemma startAll_ops:
  "fst (startAll e uris st) = map (\<lambda>uri. (uri, fst (preloadImage_start e uri st))) uris"
proof (induction uris arbitrary: st)
  case Nil
  show ?case by simp
next
  case (Cons uri uris)
  let ?st1 = "snd (preloadImage_start e uri st)"
  have same: "\<And>u. fst (preloadImage_start e u ?st1) = fst (preloadImage_start e u st)"
    by (simp add: preloadImage_start_fst preloadImage_start_files split: option.split)
  have "fst (startAll e (uri # uris) st)
          = (uri, fst (preloadImage_start e uri st)) # fst (startAll e uris ?st1)"
    by (cases "preloadImage_start e uri st"; cases "startAll e uris ?st1") simp
  then show ?case using Cons.IH[of ?st1] by (simp add: same)
qed

lemma loadImage_finish_fst:
  "fst (loadImage_finish e uri s st) =
     Resolved (case fst (preloadImage_finish e uri s st) of Resolved v \<Rightarrow> Some v | _ \<Rightarrow> None)"
  using preloadImage_finish_settles[of e uri s st]
  by (cases "preloadImage_finish e uri s st"; cases "fst (preloadImage_finish e uri s st)")
     (simp_all add: loadImage_finish_def)

lemma finishAll_resolves:
  "\<exists>rs. fst (finishAll e ops st) = Resolved rs
        \<and> length (filter (\<lambda>r. r \<noteq> None) rs)
            = length (filter (\<lambda>(uri, s). isResolved (fst (preloadImage_finish e uri s st0))) ops)"
proof (induction ops arbitrary: st)
  case Nil
  show ?case by simp
next
  case (Cons op ops)
  obtain uri s where op: "op = (uri, s)" by (cases op)
  let ?st1 = "snd (loadImage_finish e uri s st)"
  let ?r = "case fst (preloadImage_finish e uri s st) of Resolved v \<Rightarrow> Some v | _ \<Rightarrow> None"
  from Cons.IH[of ?st1] obtain rs where
    rs: "fst (finishAll e ops ?st1) = Resolved rs"
    and n: "length (filter (\<lambda>r. r \<noteq> None) rs)
            = length (filter (\<lambda>(uri, s). isResolved (fst (preloadImage_finish e uri s st0))) ops)"
    by blast
  have "fst (finishAll e (op # ops) st) = Resolved (?r # rs)"
    using rs loadImage_finish_fst[of e uri s st]
    by (cases "loadImage_finish e uri s st"; cases "finishAll e ops ?st1") (simp add: op)
  moreover
  have "(?r \<noteq> None) = isResolved (fst (preloadImage_finish e uri s st0))"
    by (cases "fst (preloadImage_finish e uri s st)")
       (simp_all add: preloadImage_finish_fst)
  ultimately show ?case using n by (simp add: op)
qed

text \<open>
  The batch always yields its list of answers, and the answers that are not
  \<open>undefined\<close> are as many as the URIs whose operation, started against the files
  the batch found, is fulfilled.
\<close>

lemma downloadImages_resolves:
  "\<exists>rs. fst (downloadImages e uris st) = Resolved rs
        \<and> length (filter (\<lambda>r. r \<noteq> None) rs)
            = length (filter (\<lambda>uri. isResolved (fst (preloadImage e uri st))) uris)"
proof -
  let ?ops = "map (\<lambda>uri. (uri, fst (preloadImage_start e uri st))) uris"
  from finishAll_resolves[of e ?ops "snd (startAll e uris st)" st] obtain rs where
    rs: "fst (finishAll e ?ops (snd (startAll e uris st))) = Resolved rs"
    and n: "length (filter (\<lambda>r. r \<noteq> None) rs)
            = length (filter (\<lambda>(uri, s). isResolved (fst (preloadImage_finish e uri s st))) ?ops)"
    by blast
  have "fst (downloadImages e uris st) = Resolved rs"
    using rs startAll_ops[of e uris st]
    by (cases "startAll e uris st") (simp add: downloadImages_def)
  moreover
  have "length (filter (\<lambda>(uri, s). isResolved (fst (preloadImage_finish e uri s st))) ?ops)
          = length (filter (\<lambda>uri. isResolved (fst (preloadImage e uri st))) uris)"
    by (simp add: filter_map comp_def preloadImage_fst[of e _ st st])
  ultimately show ?thesis using n by simp
qed

lemma getCurrent_ok:
  "getItem_rejects e = None \<Longrightarrow> \<exists>m. fst (getCurrentCacheMappingFromAsyncStorage e st) = Inr m"
  by (simp add: getCurrentCacheMappingFromAsyncStorage_def getItem_def
      split: option.split stored.split)

text \<open>
  When the read of the stored item succeeds, \<open>preloadImages\<close> resolves with
  \<open>info.tried\<close> equal to the length of the array and \<open>info.downloaded\<close> equal to
  the number of URIs whose per-URI operation is fulfilled, for every network, file
  system and validator: no per-URI failure rejects or aborts the batch.
\<close>

lemma preloadImages_tried_downloaded:
  assumes "getItem_rejects e = None"
  shows "\<exists>m. fst (preloadImages e uris st) =
           Resolved (\<lparr>tried = length uris,
                      downloaded = length (filter (\<lambda>uri. isResolved (fst (preloadImage e uri st)))
                                             uris)\<rparr>, m)"
proof -
  from downloadImages_resolves[of e uris st] obtain rs where
    rs: "fst (downloadImages e uris st) = Resolved rs"
    and n: "length (filter (\<lambda>r. r \<noteq> None) rs)
            = length (filter (\<lambda>uri. isResolved (fst (preloadImage e uri st))) uris)"
    by blast
  from getCurrent_ok[OF assms, of "snd (downloadImages e uris st)"] obtain m where
    m: "fst (getCurrentCacheMappingFromAsyncStorage e (snd (downloadImages e uris st))) = Inr m"
    by blast
  show ?thesis using rs n m
    by (cases "downloadImages e uris st";
        cases "getCurrentCacheMappingFromAsyncStorage e (snd (downloadImages e uris st))")
       (simp add: preloadImages_def Let_def)
qed

text \<open>When the read of the stored item rejects, so does \<open>preloadImages\<close>.\<close>

lemma preloadImages_read_rejects:
  assumes "getItem_rejects e = Some msg"
  shows "fst (preloadImages e uris st) = Rejected (External msg)"
proof -
  from downloadImages_resolves[of e uris st] obtain rs where
    rs: "fst (downloadImages e uris st) = Resolved rs"
    by blast
  have "fst (getCurrentCacheMappingFromAsyncStorage e (snd (downloadImages e uris st)))
          = Inl (External msg)"
    using assms by (simp add: getCurrentCacheMappingFromAsyncStorage_def getItem_def)
  then show ?thesis using rs
    by (cases "downloadImages e uris st";
        cases "getCurrentCacheMappingFromAsyncStorage e (snd (downloadImages e uris st))")
       (simp add: preloadImages_def)
qed

text \<open>
  The batch of the specification's example: a good URI, one with a wrong format and
  one whose fetch fails give \<open>{tried: 3, downloaded: 1}\<close>.
\<close>

lemma preloadImages_example:
  "fst (preloadImages sampleEnv
          [''http://h/good.jpg'', ''http://h/readme.txt'', ''http://h/down.gif''] emptyState)
     = Resolved (\<lparr>tried = 3, downloaded = 1\<rparr>,
                 [(''http://h/good.jpg'',
                   \<lparr>fileInfo = Some ''good.jpg.jpg'', created = 8640000000\<rparr>)])"
  by (simp add: eval_defs numeral_3_eq_3)

text \<open>
  A batch that names \<open>gone.png\<close> twice, with an unlink that rejects: both probes
  are answered before either fetch, so both operations fetch, both get status 404
  and none counts as downloaded, although the first fetch left its file behind.
\<close>

lemma preloadImages_repeated_uri:
  "fst (preloadImages (sampleEnv\<lparr>fs_unlink_rejects := (\<lambda>p. True)\<rparr>)
          [''http://h/gone.png'', ''http://h/gone.png''] emptyState)
     = Resolved (\<lparr>tried = 2, downloaded = 0\<rparr>, [])
   \<and> netFetches (snd (preloadImages (sampleEnv\<lparr>fs_unlink_rejects := (\<lambda>p. True)\<rparr>)
          [''http://h/gone.png'', ''http://h/gone.png''] emptyState)) = 2
   \<and> files (snd (preloadImages (sampleEnv\<lparr>fs_unlink_rejects := (\<lambda>p. True)\<rparr>)
          [''http://h/gone.png'', ''http://h/gone.png''] emptyState)) = {''/cache/gone.png.png''}"
  by (simp add: eval_defs numeral_2_eq_2)

text \<open>
  Claim C4 (the program departs from it). The claim says that \<open>preloadImages\<close>
  resolves for every array of URIs. After the batch the program awaits the read of
  the mapping table inside its \<open>try\<close>, and the \<open>catch\<close> rejects: here the only URI
  of the batch is downloaded, its per-URI operation is fulfilled, the read of the
  stored item fails, and \<open>preloadImages\<close> rejects with the error of the store
  instead of resolving with \<open>{tried: 1, downloaded: 1}\<close>. The write of the table
  a few lines below is guarded by a \<open>try\<close> that only logs, \<open>fetchImage\<close> only logs a
  failed mapping update, and the two sibling modules under \<open>src/src\<close> read no
  store in \<open>preloadImages\<close> and always resolve.
\<close>

theorem preloadImages_rejects_when_store_read_fails:
  "fst (preloadImage (sampleEnv\<lparr>getItem_rejects := Some ''storage unavailable''\<rparr>)
          ''http://h/good.jpg'' emptyState)
     = Resolved \<lparr>obj_uri = ''http://h/good.jpg'', obj_imagePath = None,
                 obj_fileInfo = Some ''good.jpg.jpg''\<rparr>
   \<and> fst (preloadImages (sampleEnv\<lparr>getItem_rejects := Some ''storage unavailable''\<rparr>)
            [''http://h/good.jpg''] emptyState)
     = Rejected (External ''storage unavailable'')
   \<and> files (snd (preloadImages (sampleEnv\<lparr>getItem_rejects := Some ''storage unavailable''\<rparr>)
            [''http://h/good.jpg''] emptyState)) = {''/cache/good.jpg.jpg''}"
  by (simp add: eval_defs)


section \<open>Where the program departs from the claims\<close>

lemma deleteExpiredImages_storage:
  "storage (snd (deleteExpiredImages e p now items st)) = storage st"
proof (induction items arbitrary: st)
  case Nil
  show ?case by simp
next
  case (Cons item items)
  define first where "first = deleteExpiredImage e p now item st"
  have s1: "storage (snd first) = storage st"
    by (simp add: first_def deleteExpiredImage_def fs_unlink_def emit_simps)
  have "snd (deleteExpiredImages e p now (item # items) st)
          = snd (deleteExpiredImages e p now items (snd first))"
    by (cases first; cases "deleteExpiredImages e p now items (snd first)")
       (simp add: first_def[symmetric])
  then show ?case using Cons.IH[of "snd first"] s1 by simp
qed

text \<open>
  The table a fulfilled sweep stores: the entries created at the very millisecond of
  the sweep, whatever the threshold. The second pass of \<open>clearExpiredImage\<close> tests
  \<open>calculateDayGap(now, created)\<close> for truthiness where the first pass compares it
  with \<open>expiredPeriod\<close>.
\<close>

lemma clearExpiredImage_table:
  assumes "storage st = Some (Table m)"
    and "fst (clearExpiredImage e p st) = Resolved msg"
  shows "storage (snd (clearExpiredImage e p st))
           = Some (Table (filter (\<lambda>(uri, item). created item = Date_now e) m))"
proof -
  have f: "(\<lambda>(uri, item). \<not> truthy (calculateDayGap (Date_now e) (created item)))
             = (\<lambda>(uri, item). created item = Date_now e)"
    by (simp add: calculateDayGap_zero fun_eq_iff)
  show ?thesis using assms unfolding clearExpiredImage_def f
    by (auto simp add: getItem_def setItem_def emit_simps
             split: option.splits prod.splits bool.splits)
qed

text \<open>Without a stored item no branch of \<open>clearExpiredImage\<close> settles the promise.\<close>

lemma clearExpiredImage_no_item:
  "storage st = None \<Longrightarrow> getItem_rejects e = None \<Longrightarrow>
   clearExpiredImage e p st = (Pending, emit GetItem st)"
  by (simp add: clearExpiredImage_def getItem_def)

text \<open>
  Claim C1 (the program departs from it). The entry of \<open>good.jpg\<close> is one day old
  and the threshold is 30 days: the sweep keeps the artifact, as the claim says, and
  removes the entry from the stored table, which the claim says stays.
\<close>

theorem clearExpiredImage_removes_unexpired_entry:
  "calculateDayGap (Date_now sampleEnv) 8553600000 = 1
   \<and> clearExpiredImage sampleEnv 30
       \<lparr>files = {''/cache/good.jpg.jpg''},
        storage = Some (Table [(''http://h/good.jpg'',
                    \<lparr>fileInfo = Some ''good.jpg.jpg'', created = 8553600000\<rparr>)]),
        trace = []\<rparr> =
     (Resolved ''removed expired images from cache'',
      \<lparr>files = {''/cache/good.jpg.jpg''}, storage = Some (Table []),
       trace = [GetItem, SetItem []]\<rparr>)"
  by (simp add: eval_defs)

text \<open>
  Claim C2 (the program departs from it). A batch of one URI whose artifact is
  already on disk: the cache hit resolves with \<open>{uri, imagePath}\<close>, which has no
  \<open>fileInfo\<close>, and \<open>preloadImages\<close> stores the entry of the URI with \<open>fileInfo\<close>
  undefined, although the key of the URI is \<open>good.jpg.jpg\<close>.
\<close>

theorem preloadImages_hit_entry_lacks_fileInfo:
  "getImageInfo sampleEnv ''http://h/good.jpg'' = Some ''good.jpg.jpg''
   \<and> preloadImages sampleEnv [''http://h/good.jpg'']
       \<lparr>files = {''/cache/good.jpg.jpg''}, storage = None, trace = []\<rparr> =
     (Resolved
       (\<lparr>tried = 1, downloaded = 1\<rparr>,
        [(''http://h/good.jpg'', \<lparr>fileInfo = None, created = 8640000000\<rparr>)]),
      \<lparr>files = {''/cache/good.jpg.jpg''},
       storage = Some (Table [(''http://h/good.jpg'',
                   \<lparr>fileInfo = None, created = 8640000000\<rparr>)]),
       trace =
         [FsExists ''/cache/good.jpg.jpg'',
          Callback ''http://h/good.jpg'' ''/cache/good.jpg.jpg'', GetItem,
          SetItem [(''http://h/good.jpg'', \<lparr>fileInfo = None, created = 8640000000\<rparr>)]]\<rparr>)"
  by (simp add: eval_defs)

text \<open>
  Claim C3 (the program departs from it). Nothing is stored under the key: the
  promise of \<open>clearExpiredImage\<close> is neither resolved nor rejected.
\<close>

theorem clearExpiredImage_pending_without_item:
  "clearExpiredImage sampleEnv 30 emptyState =
     (Pending, \<lparr>files = {}, storage = None, trace = [GetItem]\<rparr>)"
  by (simp add: eval_defs)

text \<open>
  The promise also stays pending when the unlink of an expired artifact rejects: the
  entry of \<open>old.png\<close> is 100 days old and its unlink fails.
\<close>

lemma clearExpiredImage_pending_when_unlink_rejects:
  "fst (clearExpiredImage (sampleEnv\<lparr>fs_unlink_rejects := (\<lambda>p. True)\<rparr>) 30
       \<lparr>files = {},
        storage = Some (Table [(''http://h/old.png'',
                    \<lparr>fileInfo = Some ''old.png.png'', created = 0\<rparr>)]),
        trace = []\<rparr>) = Pending"
  by (simp add: eval_defs)

end
